theory Spec2Isabelle
  imports Main
begin

section \<open>Errors\<close>

text \<open>
  Exceptions are values. \<open>ConfigError\<close> is buildtool's configuration error,
  \<open>ValueError\<close> is Python's built-in one (raised by \<open>threading.Semaphore\<close> for a
  negative initial value), and \<open>CollaboratorError\<close> stands for whatever an external
  collaborator (the build tool, the object store) raises; the code under study never
  catches it, so only its propagation matters.
\<close>

datatype error = ConfigError string | ValueError string | CollaboratorError string

fun is_config_error :: "error + 'a \<Rightarrow> bool" where
  "is_config_error (Inl (ConfigError m)) = True"
| "is_config_error r = False"

fun raises :: "error + 'a \<Rightarrow> bool" where
  "raises (Inl e) = True"
| "raises (Inr v) = False"

section \<open>Trigger-poll status (gcs_pubsub_trigger_agent.py)\<close>

subsection \<open>Clock and collaborators\<close>

text \<open>
  \<open>datetime.datetime.utcnow()\<close> and \<open>datetime.timedelta\<close> have microsecond resolution and
  exact integer arithmetic, so instants and durations are integers counting microseconds.

  The world holds the wall clock and the collaborator calls made so far, each with the
  clock value at which it was issued. A collaborator call takes time: the clock moves
  forward by the duration the collaborator reports for that call.
\<close>

datatype call = UploadFile string string string | GateGet string | TriggerRefresh | UtcNow

record world =
  clock :: int
  calls :: "(int \<times> call) list"

text \<open>
  The collaborators of the status object: \<open>gate_get\<close> is \<open>gate_agent.get(path)\<close> (its
  response and its duration), \<open>status_class\<close> builds the delegate trigger status bound
  to a detail path, \<open>trigger_refresh\<close> is the delegate's \<open>refresh()\<close> (the delegate
  afterwards and the duration of the call), \<open>trigger_finished_ok\<close> reads the delegate's
  \<open>finished_ok\<close>, and \<open>upload_file\<close> is the upload agent's method (its duration, or the
  exception it raises).
\<close>

record ('r, 'd) agents =
  gate_get :: "string \<Rightarrow> 'r \<times> nat"
  status_class :: "string \<Rightarrow> 'd"
  trigger_refresh :: "'d \<Rightarrow> 'd \<times> nat"
  trigger_finished_ok :: "'d \<Rightarrow> bool"
  upload_file :: "string \<Rightarrow> string \<Rightarrow> string \<Rightarrow> error + nat"

definition utcnow :: "world \<Rightarrow> int \<times> world" where
  "utcnow w = (clock w, w\<lparr>calls := calls w @ [(clock w, UtcNow)]\<rparr>)"

definition elapse :: "nat \<Rightarrow> world \<Rightarrow> world" where
  "elapse d w = w\<lparr>clock := clock w + int d\<rparr>"

definition call_gate_get :: "('r, 'd) agents \<Rightarrow> string \<Rightarrow> world \<Rightarrow> 'r \<times> world" where
  "call_gate_get ag path w =
     (case gate_get ag path of
        (resp, d) \<Rightarrow> (resp, elapse d (w\<lparr>calls := calls w @ [(clock w, GateGet path)]\<rparr>)))"

definition call_trigger_refresh :: "('r, 'd) agents \<Rightarrow> 'd \<Rightarrow> world \<Rightarrow> 'd \<times> world" where
  "call_trigger_refresh ag t w =
     (case trigger_refresh ag t of
        (t', d) \<Rightarrow> (t', elapse d (w\<lparr>calls := calls w @ [(clock w, TriggerRefresh)]\<rparr>)))"

subsection \<open>GcsPubsubTriggerOperationStatus\<close>

text \<open>
  The private attributes of the status object; \<open>m_x\<close> is the attribute \<open>__x\<close>. The
  delegate is held by the status alone, so its state is kept in \<open>m_trigger_status\<close>.
\<close>

record ('r, 'd) status =
  m_status_path :: string
  m_trigger_status :: 'd
  m_trigger_response :: 'r
  m_start :: int
  m_timeout_delta :: int
  m_is_timed_out :: bool
  m_finished_ok :: bool

text \<open>The properties.\<close>

definition finished_ok :: "('r, 'd) status \<Rightarrow> bool" where
  "finished_ok s = m_finished_ok s"

definition timed_out :: "('r, 'd) status \<Rightarrow> bool" where
  "timed_out s = m_is_timed_out s"

definition finished :: "('r, 'd) status \<Rightarrow> bool" where
  "finished s = (finished_ok s \<or> timed_out s)"

definition timeout_delta :: "('r, 'd) status \<Rightarrow> int" where
  "timeout_delta s = m_timeout_delta s"

definition set_timeout_delta :: "int \<Rightarrow> ('r, 'd) status \<Rightarrow> ('r, 'd) status" where
  "set_timeout_delta val s = s\<lparr>m_timeout_delta := val\<rparr>"

text \<open>\<open>datetime.timedelta(minutes=5)\<close>, in microseconds.\<close>

definition timedelta_minutes :: "int \<Rightarrow> int" where
  "timedelta_minutes m = m * 60 * 1000000"

text \<open>
  \<open>__init__\<close>, in the order of the source: the delegate is built and bound, then
  \<open>gate_agent.get(status_path)\<close> is called, and only after it has returned the clock is
  read into \<open>__start\<close>.
\<close>

definition status_init ::
  "('r, 'd) agents \<Rightarrow> string \<Rightarrow> world \<Rightarrow> ('r, 'd) status \<times> world" where
  "status_init ag status_path w =
     (let trigger = status_class ag status_path;
          (resp, w1) = call_gate_get ag status_path w;
          (now, w2) = utcnow w1
      in (\<lparr>m_status_path = status_path,
           m_trigger_status = trigger,
           m_trigger_response = resp,
           m_start = now,
           m_timeout_delta = timedelta_minutes 5,
           m_is_timed_out = False,
           m_finished_ok = False\<rparr>, w2))"

text \<open>\<open>refresh\<close>, with its two early returns.\<close>

definition refresh ::
  "('r, 'd) agents \<Rightarrow> ('r, 'd) status \<Rightarrow> world \<Rightarrow> ('r, 'd) status \<times> world" where
  "refresh ag s w =
     (if m_finished_ok s then (s, w)
      else
        let (t', w1) = call_trigger_refresh ag (m_trigger_status s) w;
            s1 = s\<lparr>m_trigger_status := t', m_finished_ok := trigger_finished_ok ag t'\<rparr>
        in if m_finished_ok s1 then (s1, w1)
           else
             let (ping, w2) = utcnow w1;
                 diff = ping - m_start s1
             in (s1\<lparr>m_is_timed_out := (diff > timeout_delta s1)\<rparr>, w2))"

text \<open>
  \<open>GcsPubsubUploadTriggerOperation._do_execute\<close>: the upload, then the status object.
  An upload that raises leaves no status.
\<close>

definition do_execute ::
  "('r, 'd) agents \<Rightarrow> string \<Rightarrow> string \<Rightarrow> string \<Rightarrow> string \<Rightarrow> world
     \<Rightarrow> (error + ('r, 'd) status) \<times> world" where
  "do_execute ag bucket_name upload_path local_filename status_path w =
     (let w0 = w\<lparr>calls := calls w @ [(clock w, UploadFile bucket_name upload_path local_filename)]\<rparr>
      in case upload_file ag bucket_name upload_path local_filename of
           Inl e \<Rightarrow> (Inl e, w0)
         | Inr d \<Rightarrow> (case status_init ag status_path (elapse d w0) of (s, w') \<Rightarrow> (Inr s, w')))"

text \<open>
  What a caller can do with a status object between its construction and the end of
  the poll loop: refresh it, set its timeout, or let time pass.
\<close>

datatype status_op = Refresh | SetTimeoutDelta int | Wait nat

fun status_step ::
  "('r, 'd) agents \<Rightarrow> status_op \<Rightarrow> ('r, 'd) status \<times> world \<Rightarrow> ('r, 'd) status \<times> world" where
  "status_step ag Refresh (s, w) = refresh ag s w"
| "status_step ag (SetTimeoutDelta val) (s, w) = (set_timeout_delta val s, w)"
| "status_step ag (Wait d) (s, w) = (s, elapse d w)"

fun status_run ::
  "('r, 'd) agents \<Rightarrow> status_op list \<Rightarrow> ('r, 'd) status \<times> world \<Rightarrow> ('r, 'd) status \<times> world" where
  "status_run ag [] sw = sw"
| "status_run ag (x # xs) sw = status_run ag xs (status_step ag x sw)"

text \<open>Two delegates for concrete runs: one that never finishes, and one that counts its
  refreshes and reports completion from the \<open>n\<close>-th on. Both answer at once, and the
  status lookup takes a quarter of a second.\<close>

definition never_agents :: "(string, unit) agents" where
  "never_agents =
     \<lparr>gate_get = (\<lambda>p. (''OK'', 250000)),
      status_class = (\<lambda>p. ()),
      trigger_refresh = (\<lambda>t. (t, 0)),
      trigger_finished_ok = (\<lambda>t. False),
      upload_file = (\<lambda>b p f. Inr 0)\<rparr>"

definition counting_agents :: "nat \<Rightarrow> (string, nat) agents" where
  "counting_agents n =
     \<lparr>gate_get = (\<lambda>p. (''OK'', 250000)),
      status_class = (\<lambda>p. 0),
      trigger_refresh = (\<lambda>t. (Suc t, 0)),
      trigger_finished_ok = (\<lambda>t. n \<le> t),
      upload_file = (\<lambda>b p f. Inr 0)\<rparr>"

definition world0 :: world where
  "world0 = \<lparr>clock = 0, calls = []\<rparr>"

text \<open>Shorthands used to state what a refresh sees: whether the delegate, refreshed once
  more, reports completion, and the clock value that \<open>refresh\<close> reads after the
  delegate's \<open>refresh()\<close> has returned.\<close>

definition delegate_reports_finished_ok :: "('r, 'd) agents \<Rightarrow> ('r, 'd) status \<Rightarrow> bool" where
  "delegate_reports_finished_ok ag s =
     trigger_finished_ok ag (fst (trigger_refresh ag (m_trigger_status s)))"

definition refresh_now :: "('r, 'd) agents \<Rightarrow> ('r, 'd) status \<Rightarrow> world \<Rightarrow> int" where
  "refresh_now ag s w = clock w + int (snd (trigger_refresh ag (m_trigger_status s)))"

section \<open>Bounded build dispatcher (debian_commands.py)\<close>

subsection \<open>Options, environment, repositories\<close>

text \<open>
  The options object is the caller's and is shared with the command: an operation that
  assigns to one of its attributes is modelled as returning the updated record. An
  option that is not set is \<open>None\<close>.
\<close>

record options =
  github_disable_upstream_push :: bool
  max_local_builds :: int
  gradle_cache_path :: "string option"
  run_unit_tests :: bool
  bintray_org :: "string option"
  bintray_jar_repository :: "string option"
  bintray_debian_repository :: "string option"
  bintray_publish_wait_secs :: "int option"

text \<open>What the code reads from the operating system: \<open>os.environ\<close> and
  \<open>os.path.isfile\<close>.\<close>

record os =
  environ :: "string \<rightharpoonup> string"
  path_isfile :: "string \<Rightarrow> bool"

record repository =
  name :: string
  git_dir :: string

text \<open>Python's truth value of \<open>os.environ.get(k)\<close> and of a string-valued option:
  \<open>None\<close> and the empty string are false.\<close>

definition truthy :: "string option \<Rightarrow> bool" where
  "truthy v = (case v of None \<Rightarrow> False | Some s \<Rightarrow> s \<noteq> [])"

text \<open>\<open>posixpath.join\<close>: a component that starts with a slash restarts the path.\<close>

fun os_path_join :: "string \<Rightarrow> string list \<Rightarrow> string" where
  "os_path_join path [] = path"
| "os_path_join path (b # p) =
     os_path_join
       (if take 1 b = ''/'' then b
        else if path = [] \<or> last path = CHR ''/'' then path @ b
        else path @ ''/'' @ b) p"

subsection \<open>threading.Semaphore\<close>

text \<open>
  The semaphore is its counter \<open>sem_value\<close>. The constructor rejects a negative
  initial value; \<open>acquire\<close> on a zero counter blocks, which is the result \<open>None\<close>: the
  step does not happen until some release has made the counter positive.

  \<open>sem_calls\<close> is not in \<open>threading.Semaphore\<close>: it is the list of the calls the
  semaphore has served, in order, and the two methods write it themselves. It never
  influences the counter.
\<close>

datatype sem_call = Acquired | Released

record semaphore =
  sem_value :: nat
  sem_calls :: "sem_call list"

definition Semaphore :: "int \<Rightarrow> error + semaphore" where
  "Semaphore val =
     (if val < 0 then Inl (ValueError ''semaphore initial value must be >= 0'')
      else Inr \<lparr>sem_value = nat val, sem_calls = []\<rparr>)"

definition acquire :: "semaphore \<Rightarrow> semaphore option" where
  "acquire s =
     (if sem_value s = 0 then None
      else Some (s\<lparr>sem_value := sem_value s - 1, sem_calls := sem_calls s @ [Acquired]\<rparr>))"

definition release :: "semaphore \<Rightarrow> semaphore" where
  "release s = s\<lparr>sem_value := sem_value s + 1, sem_calls := sem_calls s @ [Released]\<rparr>"

subsection \<open>check_options_set\<close>

text \<open>
  Modelled from the spec: \<open>check_options_set\<close> is imported from the buildtool package
  and its body is not part of the sources at hand. The spec's construction contract
  says that construction "fails fatally (configuration error) if any required option
  is absent"; so the check raises a \<open>ConfigError\<close> when one of the named options is
  not set and returns otherwise.
\<close>

definition option_is_set :: "options \<Rightarrow> string \<Rightarrow> bool" where
  "option_is_set opts k =
     (if k = ''bintray_org'' then bintray_org opts \<noteq> None
      else if k = ''bintray_jar_repository'' then bintray_jar_repository opts \<noteq> None
      else if k = ''bintray_debian_repository'' then bintray_debian_repository opts \<noteq> None
      else if k = ''bintray_publish_wait_secs'' then bintray_publish_wait_secs opts \<noteq> None
      else if k = ''gradle_cache_path'' then gradle_cache_path opts \<noteq> None
      else k \<in> set [''github_disable_upstream_push'', ''max_local_builds'', ''run_unit_tests''])"

definition check_options_set :: "options \<Rightarrow> string list \<Rightarrow> error + unit" where
  "check_options_set opts name_list =
     (if \<exists>k \<in> set name_list. \<not> option_is_set opts k
      then Inl (ConfigError ''Missing options'')
      else Inr ())"

subsection \<open>BuildDebianCommand\<close>

text \<open>The command object: the options it shares with the caller and its semaphore.\<close>

record dispatcher =
  self_options :: options
  self_semaphore :: semaphore

text \<open>
  The build-tool collaborator (\<open>self.gradle\<close>). \<open>check_run\<close> either returns or
  raises. Its second argument is the command itself, as in the source
  (\<open>check_run(args, self, repository, 'candidate', 'debian-build')\<close>): the build tool
  is handed the command in the state it has during the call, semaphore included, and
  what it does may depend on it.
\<close>

record gradle =
  get_common_args :: "string list"
  get_debian_args :: "string \<Rightarrow> string list"
  consider_debian_on_bintray :: "repository \<Rightarrow> string \<Rightarrow> bool"
  check_run ::
    "string list \<Rightarrow> dispatcher \<Rightarrow> repository \<Rightarrow> string \<Rightarrow> string \<Rightarrow> error + unit"

text \<open>The source-code manager (\<open>self.scm\<close>).\<close>

record scm =
  get_repository_service_build_version :: "repository \<Rightarrow> string"

text \<open>
  \<open>__init__\<close>. The first component of the result is the caller's options object after
  the call, the second the exception raised or the command constructed. The statements
  run in the order of the source: the assignment to the options, the base-class
  constructor (outside the sources at hand; it is taken to store its arguments and
  return), the semaphore, the two environment checks, the option check.
\<close>

definition BuildDebianCommand_init :: "os \<Rightarrow> options \<Rightarrow> options \<times> (error + dispatcher)" where
  "BuildDebianCommand_init sys opts0 =
     (let opts = opts0\<lparr>github_disable_upstream_push := True\<rparr>
      in (opts,
          case Semaphore (max_local_builds opts) of
            Inl e \<Rightarrow> Inl e
          | Inr sem \<Rightarrow>
              if \<not> truthy (environ sys ''BINTRAY_KEY'')
              then Inl (ConfigError ''Expected BINTRAY_KEY set.'')
              else if \<not> truthy (environ sys ''BINTRAY_USER'')
              then Inl (ConfigError ''Expected BINTRAY_USER set.'')
              else
                case check_options_set opts
                       [''bintray_org'', ''bintray_jar_repository'',
                        ''bintray_debian_repository'', ''bintray_publish_wait_secs''] of
                  Inl e \<Rightarrow> Inl e
                | Inr u \<Rightarrow> Inr \<lparr>self_options = opts, self_semaphore = sem\<rparr>))"

definition NON_DEBIAN_BOM_REPOSITORIES :: "string list" where
  "NON_DEBIAN_BOM_REPOSITORIES = [''spin'']"

text \<open>\<open>_do_can_skip_repository\<close> reads the repository and asks the collaborators; it
  assigns to nothing, so it is a function to its result.\<close>

definition do_can_skip_repository :: "scm \<Rightarrow> gradle \<Rightarrow> repository \<Rightarrow> bool" where
  "do_can_skip_repository sc gr repo =
     (if name repo \<in> set NON_DEBIAN_BOM_REPOSITORIES then True
      else
        let build_version = get_repository_service_build_version sc repo
        in consider_debian_on_bintray gr repo build_version)"

text \<open>The argument list that \<open>_do_repository\<close> assembles before it enters the
  \<open>with\<close> block (lines 56 to 69).\<close>

definition do_repository_args :: "os \<Rightarrow> gradle \<Rightarrow> options \<Rightarrow> repository \<Rightarrow> string list" where
  "do_repository_args sys gr opts repo =
     (let args = get_common_args gr;
          args = (case gradle_cache_path opts of
                    None \<Rightarrow> args
                  | Some p \<Rightarrow> if p \<noteq> [] then args @ [''--gradle-user-home='' @ p] else args);
          args = (if \<not> run_unit_tests opts \<or>
                     (name repo = ''deck'' \<and> \<not> (''CHROME_BIN'' \<in> dom (environ sys)))
                  then args @ [''-x test''] else args);
          args = (if path_isfile sys
                       (os_path_join (git_dir repo) [''gradle'', ''init-publish.gradle''])
                  then args @ [''-I gradle/init-publish.gradle''] else args)
      in args @ get_debian_args gr ''trusty,xenial,bionic'')"

text \<open>
  \<open>_do_repository\<close> run by one thread on its own. The \<open>with\<close> statement acquires the
  semaphore on entry and releases it on exit, whether the body returns or raises; an
  exception of the body is raised again after the release. The body is the call of
  \<open>check_run\<close>, which is handed the command as it is inside the block. \<open>None\<close>: the
  thread blocks at the \<open>with\<close> for ever, nobody else being there to release.
\<close>

definition do_repository ::
  "os \<Rightarrow> gradle \<Rightarrow> dispatcher \<Rightarrow> repository \<Rightarrow> ((error + unit) \<times> dispatcher) option" where
  "do_repository sys gr self repo =
     (let args = do_repository_args sys gr (self_options self) repo
      in case acquire (self_semaphore self) of
           None \<Rightarrow> None
         | Some sem \<Rightarrow>
             let self1 = self\<lparr>self_semaphore := sem\<rparr>;
                 result = check_run gr args self1 repo ''candidate'' ''debian-build'';
                 self2 = self1\<lparr>self_semaphore := release (self_semaphore self1)\<rparr>
             in Some (result, self2))"

subsection \<open>Several threads in _do_repository\<close>

text \<open>
  The caller runs \<open>_do_repository\<close> for several repositories in parallel threads that
  share the command and so its semaphore. Each thread is at one of four places: at the
  \<open>with\<close> statement with its arguments assembled, inside \<open>check_run\<close>, at the exit of
  the \<open>with\<close> block with the outcome of \<open>check_run\<close> in hand, or returned. The
  semaphore operations are atomic, so a run of the threads is an interleaving of three
  kinds of steps; a thread at the \<open>with\<close> statement can take its step only when the
  semaphore lets it in. \<open>check_run\<close> holds the shared command for as long as the call
  lasts; its outcome is fixed when the call ends, from the command as it is then.
\<close>

datatype phase = AtWith | InCheckRun | AtExit "error + unit" | Returned "error + unit"

record worker =
  w_repository :: repository
  w_args :: "string list"
  w_phase :: phase

record pool =
  p_self :: dispatcher
  p_workers :: "worker list"

datatype action = Enter nat | CheckRunEnds nat | Leave nat

fun pool_step :: "gradle \<Rightarrow> action \<Rightarrow> pool \<Rightarrow> pool option" where
  "pool_step gr (Enter i) p =
     (if i < length (p_workers p) \<and> w_phase (p_workers p ! i) = AtWith
      then case acquire (self_semaphore (p_self p)) of
             None \<Rightarrow> None
           | Some sem \<Rightarrow>
               Some (p\<lparr>p_self := (p_self p)\<lparr>self_semaphore := sem\<rparr>,
                       p_workers := (p_workers p)[i := (p_workers p ! i)\<lparr>w_phase := InCheckRun\<rparr>]\<rparr>)
      else None)"
| "pool_step gr (CheckRunEnds i) p =
     (if i < length (p_workers p) \<and> w_phase (p_workers p ! i) = InCheckRun
      then let w = p_workers p ! i;
               result = check_run gr (w_args w) (p_self p) (w_repository w)
                          ''candidate'' ''debian-build''
           in Some (p\<lparr>p_workers := (p_workers p)[i := w\<lparr>w_phase := AtExit result\<rparr>]\<rparr>)
      else None)"
| "pool_step gr (Leave i) p =
     (if i < length (p_workers p)
      then case w_phase (p_workers p ! i) of
             AtExit result \<Rightarrow>
               Some (p\<lparr>p_self := (p_self p)\<lparr>self_semaphore := release (self_semaphore (p_self p))\<rparr>,
                       p_workers := (p_workers p)[i := (p_workers p ! i)\<lparr>w_phase := Returned result\<rparr>]\<rparr>)
           | _ \<Rightarrow> None
      else None)"

fun pool_run :: "gradle \<Rightarrow> action list \<Rightarrow> pool \<Rightarrow> pool option" where
  "pool_run gr [] p = Some p"
| "pool_run gr (a # as) p =
     (case pool_step gr a p of None \<Rightarrow> None | Some p' \<Rightarrow> pool_run gr as p')"

definition start_pool :: "os \<Rightarrow> gradle \<Rightarrow> dispatcher \<Rightarrow> repository list \<Rightarrow> pool" where
  "start_pool sys gr self repos =
     \<lparr>p_self = self,
      p_workers = map (\<lambda>r. \<lparr>w_repository = r,
                             w_args = do_repository_args sys gr (self_options self) r,
                             w_phase = AtWith\<rparr>) repos\<rparr>"

text \<open>The number of threads inside \<open>check_run\<close>, and the number of threads that hold
  a permit of the semaphore (inside the \<open>with\<close> block).\<close>

definition executing :: "pool \<Rightarrow> nat" where
  "executing p = length (filter (\<lambda>w. w_phase w = InCheckRun) (p_workers p))"

fun holds_permit :: "phase \<Rightarrow> bool" where
  "holds_permit AtWith = False"
| "holds_permit InCheckRun = True"
| "holds_permit (AtExit r) = True"
| "holds_permit (Returned r) = False"

definition holding :: "pool \<Rightarrow> nat" where
  "holding p = length (filter (\<lambda>w. holds_permit (w_phase w)) (p_workers p))"

text \<open>A configuration lacks a required value: one of the two credential variables or
  one of the four required options.\<close>

definition required_value_absent :: "os \<Rightarrow> options \<Rightarrow> bool" where
  "required_value_absent sys opts =
     (environ sys ''BINTRAY_KEY'' = None \<or> environ sys ''BINTRAY_USER'' = None \<or>
      bintray_org opts = None \<or> bintray_jar_repository opts = None \<or>
      bintray_debian_repository opts = None \<or> bintray_publish_wait_secs opts = None)"

subsection \<open>Concrete configurations\<close>

definition good_options :: options where
  "good_options =
     \<lparr>github_disable_upstream_push = False, max_local_builds = 2,
      gradle_cache_path = None, run_unit_tests = True,
      bintray_org = Some ''org'', bintray_jar_repository = Some ''jars'',
      bintray_debian_repository = Some ''debians'', bintray_publish_wait_secs = Some 10\<rparr>"

definition good_os :: os where
  "good_os =
     \<lparr>environ = [''BINTRAY_KEY'' \<mapsto> ''key'', ''BINTRAY_USER'' \<mapsto> ''user''],
      path_isfile = (\<lambda>p. False)\<rparr>"

definition bare_os :: os where
  "bare_os = \<lparr>environ = Map.empty, path_isfile = (\<lambda>p. False)\<rparr>"

definition failing_gradle :: gradle where
  "failing_gradle =
     \<lparr>get_common_args = [''--stacktrace'', ''--info''],
      get_debian_args = (\<lambda>distros. [''candidate'', ''-PbintrayPackageDebDistribution='' @ distros]),
      consider_debian_on_bintray = (\<lambda>r v. False),
      check_run = (\<lambda>args self r phase kind. Inl (CollaboratorError ''gradle failed''))\<rparr>"

text \<open>A build tool that looks at the command it is handed: its \<open>check_run\<close> raises when
  it finds the semaphore acquired once and not released, with one permit left, and
  returns otherwise.\<close>

definition watching_gradle :: gradle where
  "watching_gradle =
     \<lparr>get_common_args = [''--stacktrace'', ''--info''],
      get_debian_args = (\<lambda>distros. [''candidate'', ''-PbintrayPackageDebDistribution='' @ distros]),
      consider_debian_on_bintray = (\<lambda>r v. False),
      check_run = (\<lambda>args self r phase kind.
        if sem_value (self_semaphore self) = 1 \<and> sem_calls (self_semaphore self) = [Acquired]
        then Inl (CollaboratorError ''gradle failed'') else Inr ())\<rparr>"

definition deck :: repository where
  "deck = \<lparr>name = ''deck'', git_dir = ''/src/deck''\<rparr>"

definition orca :: repository where
  "orca = \<lparr>name = ''orca'', git_dir = ''/src/orca''\<rparr>"

definition good_command :: dispatcher where
  "good_command =
     \<lparr>self_options = good_options\<lparr>github_disable_upstream_push := True\<rparr>,
      self_semaphore = \<lparr>sem_value = 2, sem_calls = []\<rparr>\<rparr>"

definition five_repos :: "repository list" where
  "five_repos =
     map (\<lambda>n. \<lparr>name = n, git_dir = ''/src/'' @ n\<rparr>)
       [''clouddriver'', ''deck'', ''echo'', ''gate'', ''orca'']"

section \<open>Properties of the trigger-poll status\<close>

subsection \<open>What the constructor and one refresh compute\<close>

lemma status_init_eq:
  "status_init ag path w =
     (\<lparr>m_status_path = path, m_trigger_status = status_class ag path,
       m_trigger_response = fst (gate_get ag path),
       m_start = clock w + int (snd (gate_get ag path)),
       m_timeout_delta = 300000000, m_is_timed_out = False, m_finished_ok = False\<rparr>,
      \<lparr>clock = clock w + int (snd (gate_get ag path)),
       calls = calls w @
         [(clock w, GateGet path), (clock w + int (snd (gate_get ag path)), UtcNow)]\<rparr>)"
  by (simp add: status_init_def call_gate_get_def utcnow_def elapse_def timedelta_minutes_def
      Let_def case_prod_beta)

lemma status_init_not_timed_out: "\<not> m_is_timed_out (fst (status_init ag path w0))"
  by (simp add: status_init_eq)

lemma refresh_when_finished_ok: "m_finished_ok s \<Longrightarrow> refresh ag s w = (s, w)"
  by (simp add: refresh_def)

lemma refresh_delegate_done:
  assumes "\<not> m_finished_ok s"
    and "trigger_finished_ok ag (fst (trigger_refresh ag (m_trigger_status s)))"
  shows "refresh ag s w =
     (s\<lparr>m_trigger_status := fst (trigger_refresh ag (m_trigger_status s)), m_finished_ok := True\<rparr>,
      elapse (snd (trigger_refresh ag (m_trigger_status s)))
        (w\<lparr>calls := calls w @ [(clock w, TriggerRefresh)]\<rparr>))"
  using assms by (simp add: refresh_def call_trigger_refresh_def Let_def case_prod_beta)

lemma refresh_delegate_pending:
  assumes "\<not> m_finished_ok s"
    and "\<not> trigger_finished_ok ag (fst (trigger_refresh ag (m_trigger_status s)))"
  shows "refresh ag s w =
     (s\<lparr>m_trigger_status := fst (trigger_refresh ag (m_trigger_status s)), m_finished_ok := False,
        m_is_timed_out := (refresh_now ag s w - m_start s > m_timeout_delta s)\<rparr>,
      \<lparr>clock = refresh_now ag s w,
       calls = calls w @ [(clock w, TriggerRefresh), (refresh_now ag s w, UtcNow)]\<rparr>)"
  using assms
  by (simp add: refresh_def call_trigger_refresh_def utcnow_def elapse_def timeout_delta_def
      refresh_now_def Let_def case_prod_beta)

lemma status_step_keeps_finished_ok:
  "m_finished_ok (fst sw) \<Longrightarrow> m_finished_ok (fst (status_step ag x sw))"
  by (cases sw; cases x) (simp_all add: refresh_when_finished_ok set_timeout_delta_def)

lemma status_run_keeps_finished_ok:
  "m_finished_ok (fst sw) \<Longrightarrow> m_finished_ok (fst (status_run ag xs sw))"
  by (induction xs arbitrary: sw) (simp_all add: status_step_keeps_finished_ok)

subsection \<open>The concrete delegates\<close>

lemma never_agents_fields:
  "gate_get never_agents p = (''OK'', 250000)"
  "status_class never_agents p = ()"
  "trigger_refresh never_agents t = (t, 0)"
  "trigger_finished_ok never_agents t = False"
  by (simp_all add: never_agents_def)

lemma counting_agents_fields:
  "gate_get (counting_agents n) p = (''OK'', 250000)"
  "status_class (counting_agents n) p = 0"
  "trigger_refresh (counting_agents n) t = (Suc t, 0)"
  "trigger_finished_ok (counting_agents n) t = (n \<le> t)"
  by (simp_all add: counting_agents_def)

lemma never_init:
  "status_init never_agents ''p'' world0 =
     (\<lparr>m_status_path = ''p'', m_trigger_status = (), m_trigger_response = ''OK'',
       m_start = 250000, m_timeout_delta = 300000000, m_is_timed_out = False,
       m_finished_ok = False\<rparr>,
      \<lparr>clock = 250000, calls = [(0, GateGet ''p''), (250000, UtcNow)]\<rparr>)"
  by (simp add: status_init_eq never_agents_fields world0_def)

lemma counting_init:
  "status_init (counting_agents n) ''p'' world0 =
     (\<lparr>m_status_path = ''p'', m_trigger_status = 0, m_trigger_response = ''OK'',
       m_start = 250000, m_timeout_delta = 300000000, m_is_timed_out = False,
       m_finished_ok = False\<rparr>,
      \<lparr>clock = 250000, calls = [(0, GateGet ''p''), (250000, UtcNow)]\<rparr>)"
  by (simp add: status_init_eq counting_agents_fields world0_def)

subsection \<open>Refresh after success\<close>

text \<open>
  C5. When \<open>finished_ok\<close> is already true, \<open>refresh\<close> returns the status and the world
  as they were: no attribute changes (\<open>timed_out\<close> is not recomputed), the delegate is
  not called and the clock is not read. So \<open>finished_ok\<close> stays true whatever the
  caller does afterwards, in any order: refreshing, setting the timeout, waiting.
\<close>

theorem refresh_noop_once_finished_ok:
  assumes "finished_ok s"
  shows "refresh ag s w = (s, w) \<and> finished_ok (fst (status_run ag xs (s, w)))"
  using assms status_run_keeps_finished_ok [of "(s, w)" ag xs]
  by (simp add: finished_ok_def refresh_when_finished_ok)

text \<open>A status that has succeeded on its first refresh, refreshed again an hour
  later with a timeout of zero.\<close>

theorem refresh_noop_once_finished_ok_witness:
  "finished_ok (fst (status_run (counting_agents 1) [Refresh]
       (status_init (counting_agents 1) ''p'' world0))) \<and>
   status_step (counting_agents 1) Refresh
     (status_run (counting_agents 1) [Refresh] (status_init (counting_agents 1) ''p'' world0)) =
     status_run (counting_agents 1) [Refresh] (status_init (counting_agents 1) ''p'' world0) \<and>
   finished_ok (fst (status_run (counting_agents 1)
       [Refresh, SetTimeoutDelta 0, Wait 3600000000, Refresh]
       (status_init (counting_agents 1) ''p'' world0)))"
proof -
  let ?ag = "counting_agents 1"
  let ?s = "\<lparr>m_status_path = ''p'', m_trigger_status = Suc 0, m_trigger_response = ''OK'',
      m_start = 250000, m_timeout_delta = 300000000, m_is_timed_out = False,
      m_finished_ok = True\<rparr>"
  let ?w = "\<lparr>clock = 250000,
      calls = [(0, GateGet ''p''), (250000, UtcNow), (250000, TriggerRefresh)]\<rparr>"
  have first: "refresh ?ag (fst (status_init ?ag ''p'' world0)) (snd (status_init ?ag ''p'' world0))
      = (?s, ?w)"
    by (simp add: counting_init refresh_delegate_done counting_agents_fields elapse_def)
  have ok: "finished_ok ?s"
    by (simp add: finished_ok_def)
  note noop = refresh_noop_once_finished_ok
    [OF ok, of ?ag ?w "[SetTimeoutDelta 0, Wait 3600000000, Refresh]"]
  have run: "status_run ?ag [Refresh] (status_init ?ag ''p'' world0) = (?s, ?w)"
    using first by (cases "status_init ?ag ''p'' world0") simp
  have run4: "status_run ?ag [Refresh, SetTimeoutDelta 0, Wait 3600000000, Refresh]
      (status_init ?ag ''p'' world0) =
      status_run ?ag [SetTimeoutDelta 0, Wait 3600000000, Refresh] (?s, ?w)"
    using first by (cases "status_init ?ag ''p'' world0") simp
  from ok noop show ?thesis
    unfolding run run4 by simp
qed

subsection \<open>Refresh when the delegate reports completion\<close>

text \<open>
  C6. On a status whose \<open>finished_ok\<close> is false, a \<open>refresh\<close> in which the delegate
  reports \<open>finished_ok\<close> sets \<open>finished_ok\<close> and returns without evaluating the timeout:
  \<open>timed_out\<close> keeps its value and the only call made is the delegate's \<open>refresh()\<close>,
  the clock is not read. If the status is the freshly constructed one, \<open>timed_out\<close> is
  therefore false afterwards, whatever the clock of the world \<open>w\<close> in which the refresh
  runs.
\<close>

theorem refresh_copies_delegate_finished_ok:
  assumes "\<not> finished_ok s" and "delegate_reports_finished_ok ag s"
  shows "finished_ok (fst (refresh ag s w)) \<and>
         timed_out (fst (refresh ag s w)) = timed_out s \<and>
         calls (snd (refresh ag s w)) = calls w @ [(clock w, TriggerRefresh)] \<and>
         (s = fst (status_init ag path w0) \<longrightarrow> \<not> timed_out (fst (refresh ag s w)))"
proof -
  have unfinished: "\<not> m_finished_ok s"
    using assms(1) by (simp add: finished_ok_def)
  have reported: "trigger_finished_ok ag (fst (trigger_refresh ag (m_trigger_status s)))"
    using assms(2) by (simp add: delegate_reports_finished_ok_def)
  note r = refresh_delegate_done [OF unfinished reported, of w]
  have ok: "finished_ok (fst (refresh ag s w))"
    by (simp add: r finished_ok_def)
  have same: "timed_out (fst (refresh ag s w)) = timed_out s"
    by (simp add: r timed_out_def)
  have log: "calls (snd (refresh ag s w)) = calls w @ [(clock w, TriggerRefresh)]"
    by (simp add: r elapse_def)
  have fresh: "s = fst (status_init ag path w0) \<longrightarrow> \<not> timed_out (fst (refresh ag s w))"
    using same status_init_not_timed_out [of ag path w0] by (auto simp: timed_out_def)
  from ok same log fresh show ?thesis by blast
qed

text \<open>The delegate reports completion on the first refresh, which comes an hour after
  construction, far beyond the five minutes of the default timeout.\<close>

theorem refresh_copies_delegate_finished_ok_witness:
  "\<not> finished_ok (fst (status_init (counting_agents 1) ''p'' world0)) \<and>
   delegate_reports_finished_ok (counting_agents 1)
     (fst (status_init (counting_agents 1) ''p'' world0)) \<and>
   finished_ok (fst (status_run (counting_agents 1) [Wait 3600000000, Refresh]
     (status_init (counting_agents 1) ''p'' world0))) \<and>
   \<not> timed_out (fst (status_run (counting_agents 1) [Wait 3600000000, Refresh]
     (status_init (counting_agents 1) ''p'' world0)))"
proof -
  let ?ag = "counting_agents 1"
  let ?s = "\<lparr>m_status_path = ''p'', m_trigger_status = 0, m_trigger_response = ''OK'',
      m_start = 250000, m_timeout_delta = 300000000, m_is_timed_out = False,
      m_finished_ok = False\<rparr>"
  let ?w = "\<lparr>clock = 3600250000, calls = [(0, GateGet ''p''), (250000, UtcNow)]\<rparr>"
  have unfinished: "\<not> finished_ok ?s"
    by (simp add: finished_ok_def)
  have reported: "delegate_reports_finished_ok ?ag ?s"
    by (simp add: delegate_reports_finished_ok_def counting_agents_fields)
  have fresh: "?s = fst (status_init ?ag ''p'' world0)"
    by (simp add: counting_init)
  note t = refresh_copies_delegate_finished_ok [OF unfinished reported, of ?w "''p''" world0]
  from t have ok: "finished_ok (fst (refresh ?ag ?s ?w))"
    by blast
  from t fresh have untimed: "\<not> timed_out (fst (refresh ?ag ?s ?w))"
    by blast
  from unfinished reported ok untimed show ?thesis
    by (simp add: counting_init elapse_def)
qed

subsection \<open>Refresh while the delegate is pending\<close>

text \<open>
  C7. On a status whose \<open>finished_ok\<close> is false and whose delegate does not report
  completion, \<open>refresh\<close> reads the clock after the delegate's \<open>refresh()\<close> and sets
  \<open>timed_out\<close> to the strict comparison \<open>now - started_at > timeout_duration\<close>. The
  timeout of a freshly constructed status is five minutes.
\<close>

theorem refresh_computes_timed_out:
  assumes "\<not> finished_ok s" and "\<not> delegate_reports_finished_ok ag s"
  shows "timed_out (fst (refresh ag s w)) = (refresh_now ag s w - m_start s > timeout_delta s) \<and>
         calls (snd (refresh ag s w)) =
           calls w @ [(clock w, TriggerRefresh), (refresh_now ag s w, UtcNow)] \<and>
         timeout_delta (fst (status_init ag path w0)) = timedelta_minutes 5"
  using assms
  by (simp add: refresh_delegate_pending status_init_eq finished_ok_def timed_out_def
      delegate_reports_finished_ok_def timeout_delta_def timedelta_minutes_def)

text \<open>A timeout of one second and a delegate that never finishes: a refresh 1.5 seconds
  after construction yields \<open>timed_out\<close> and \<open>finished\<close>; a refresh exactly one second
  after construction does not, the comparison being strict.\<close>

theorem refresh_computes_timed_out_witness:
  "timed_out (fst (status_run never_agents [SetTimeoutDelta 1000000, Wait 1500000, Refresh]
      (status_init never_agents ''p'' world0))) \<and>
   finished (fst (status_run never_agents [SetTimeoutDelta 1000000, Wait 1500000, Refresh]
      (status_init never_agents ''p'' world0))) \<and>
   \<not> timed_out (fst (status_run never_agents [SetTimeoutDelta 1000000, Wait 1000000, Refresh]
      (status_init never_agents ''p'' world0))) \<and>
   timeout_delta (fst (status_init never_agents ''p'' world0)) = 300000000"
proof -
  let ?s = "\<lparr>m_status_path = ''p'', m_trigger_status = (), m_trigger_response = ''OK'',
      m_start = 250000, m_timeout_delta = 1000000, m_is_timed_out = False,
      m_finished_ok = False\<rparr>"
  let ?w = "\<lambda>t. \<lparr>clock = t, calls = [(0, GateGet ''p''), (250000, UtcNow)]\<rparr>"
  have unfinished: "\<not> finished_ok ?s"
    by (simp add: finished_ok_def)
  have pending: "\<not> delegate_reports_finished_ok never_agents ?s"
    by (simp add: delegate_reports_finished_ok_def never_agents_fields)
  note late = refresh_computes_timed_out [OF unfinished pending, of "?w 1750000" "''p''" world0]
  note edge = refresh_computes_timed_out [OF unfinished pending, of "?w 1250000" "''p''" world0]
  from late edge show ?thesis
    by (simp add: never_init set_timeout_delta_def elapse_def finished_def timeout_delta_def
        refresh_now_def never_agents_fields timedelta_minutes_def)
qed

subsection \<open>Refresh after a timeout\<close>

text \<open>
  C10. On a status with \<open>timed_out\<close> true and \<open>finished_ok\<close> false, a \<open>refresh\<close> in
  which the delegate reports \<open>finished_ok\<close> sets \<open>finished_ok\<close> and leaves \<open>timed_out\<close>
  true: both are true on the same status afterwards.
\<close>

theorem refresh_after_timeout_sets_both:
  assumes "timed_out s" and "\<not> finished_ok s" and "delegate_reports_finished_ok ag s"
  shows "finished_ok (fst (refresh ag s w)) \<and> timed_out (fst (refresh ag s w))"
  using assms
  by (simp add: refresh_delegate_done finished_ok_def timed_out_def
      delegate_reports_finished_ok_def)

text \<open>Such a status is reached from the constructor: the delegate completes on its
  second refresh, the first refresh comes 400 seconds after construction and times out,
  the second one succeeds.\<close>

theorem refresh_after_timeout_sets_both_witness:
  "timed_out (fst (status_run (counting_agents 2) [Wait 400000000, Refresh]
      (status_init (counting_agents 2) ''p'' world0))) \<and>
   \<not> finished_ok (fst (status_run (counting_agents 2) [Wait 400000000, Refresh]
      (status_init (counting_agents 2) ''p'' world0))) \<and>
   finished_ok (fst (status_run (counting_agents 2) [Wait 400000000, Refresh, Refresh]
      (status_init (counting_agents 2) ''p'' world0))) \<and>
   timed_out (fst (status_run (counting_agents 2) [Wait 400000000, Refresh, Refresh]
      (status_init (counting_agents 2) ''p'' world0)))"
proof -
  let ?ag = "counting_agents 2"
  let ?fresh = "\<lparr>m_status_path = ''p'', m_trigger_status = 0::nat, m_trigger_response = ''OK'',
      m_start = 250000, m_timeout_delta = 300000000, m_is_timed_out = False,
      m_finished_ok = False\<rparr>"
  let ?later = "\<lparr>clock = 400250000, calls = [(0, GateGet ''p''), (250000, UtcNow)]\<rparr>"
  let ?s = "\<lparr>m_status_path = ''p'', m_trigger_status = Suc 0, m_trigger_response = ''OK'',
      m_start = 250000, m_timeout_delta = 300000000, m_is_timed_out = True,
      m_finished_ok = False\<rparr>"
  let ?w = "\<lparr>clock = 400250000,
      calls = [(0, GateGet ''p''), (250000, UtcNow), (400250000, TriggerRefresh),
               (400250000, UtcNow)]\<rparr>"
  have first: "refresh ?ag ?fresh ?later = (?s, ?w)"
    by (simp add: refresh_delegate_pending counting_agents_fields refresh_now_def)
  have late: "timed_out ?s"
    by (simp add: timed_out_def)
  have unfinished: "\<not> finished_ok ?s"
    by (simp add: finished_ok_def)
  have reported: "delegate_reports_finished_ok ?ag ?s"
    by (simp add: delegate_reports_finished_ok_def counting_agents_fields)
  note both = refresh_after_timeout_sets_both [OF late unfinished reported, of ?w]
  from late unfinished both show ?thesis
    by (simp add: counting_init elapse_def first)
qed

subsection \<open>Construction\<close>

text \<open>
  C8, as the code has it. The constructor issues exactly one status-source lookup,
  whose response becomes \<open>trigger_response\<close>, and reads the clock into \<open>started_at\<close>
  after that lookup has returned: these are its only two calls, in this order, and
  \<open>started_at\<close> is the time of issue of the lookup plus the time the lookup took, so
  no earlier than the lookup. \<open>finished_ok\<close> and \<open>timed_out\<close> start false.
\<close>

theorem status_init_lookup_then_clock:
  "calls (snd (status_init ag path w)) =
     calls w @ [(clock w, GateGet path), (m_start (fst (status_init ag path w)), UtcNow)] \<and>
   m_start (fst (status_init ag path w)) = clock w + int (snd (gate_get ag path)) \<and>
   clock w \<le> m_start (fst (status_init ag path w)) \<and>
   m_trigger_response (fst (status_init ag path w)) = fst (gate_get ag path) \<and>
   \<not> finished_ok (fst (status_init ag path w)) \<and>
   \<not> timed_out (fst (status_init ag path w))"
proof -
  let ?took = "int (snd (gate_get ag path))"
  have start: "m_start (fst (status_init ag path w)) = clock w + ?took"
    by (simp add: status_init_eq)
  have order: "calls (snd (status_init ag path w)) =
      calls w @ [(clock w, GateGet path), (clock w + ?took, UtcNow)]"
    by (simp add: status_init_eq)
  have later: "clock w \<le> clock w + ?took"
    by simp
  have response: "m_trigger_response (fst (status_init ag path w)) = fst (gate_get ag path)"
    by (simp add: status_init_eq)
  have flags: "\<not> finished_ok (fst (status_init ag path w)) \<and>
      \<not> timed_out (fst (status_init ag path w))"
    by (simp add: status_init_eq finished_ok_def timed_out_def)
  from order later response flags show ?thesis
    unfolding start by blast
qed

text \<open>With a lookup that takes a quarter of a second, issued at time 0.\<close>

theorem status_init_lookup_then_clock_witness:
  "calls (snd (status_init never_agents ''p'' world0)) =
     [(0, GateGet ''p''), (250000, UtcNow)] \<and>
   m_trigger_response (fst (status_init never_agents ''p'' world0)) = ''OK'' \<and>
   \<not> finished_ok (fst (status_init never_agents ''p'' world0))"
  using status_init_lookup_then_clock [of never_agents "''p''" world0]
  by (simp add: never_agents_fields world0_def)

text \<open>
  The statement that \<open>started_at\<close> is recorded no later than the lookup is issued fails
  as soon as the lookup takes time: here the lookup is issued at time 0 and
  \<open>started_at\<close> is 250000.
\<close>

theorem status_init_start_after_lookup_counterexample:
  "calls (snd (status_init never_agents ''p'' world0)) =
     [(0, GateGet ''p''), (250000, UtcNow)] \<and>
   m_start (fst (status_init never_agents ''p'' world0)) = 250000 \<and>
   \<not> m_start (fst (status_init never_agents ''p'' world0)) \<le> 0"
  by (simp add: never_init)

section \<open>Properties of the build dispatcher\<close>

subsection \<open>Construction\<close>

lemma init_options:
  "fst (BuildDebianCommand_init sys opts) = opts\<lparr>github_disable_upstream_push := True\<rparr>"
  by (simp add: BuildDebianCommand_init_def Let_def)

lemma init_semaphore:
  "snd (BuildDebianCommand_init sys opts) = Inr self \<Longrightarrow>
   int (sem_value (self_semaphore self)) = max_local_builds opts"
  by (auto simp add: BuildDebianCommand_init_def Let_def Semaphore_def
      split: if_splits sum.splits)

lemma init_self_options:
  "snd (BuildDebianCommand_init sys opts) = Inr self \<Longrightarrow>
   self_options self = opts\<lparr>github_disable_upstream_push := True\<rparr>"
  by (auto simp add: BuildDebianCommand_init_def Let_def split: if_splits sum.splits)

lemma good_init:
  "BuildDebianCommand_init good_os good_options =
     (good_options\<lparr>github_disable_upstream_push := True\<rparr>, Inr good_command)"
  by (simp add: BuildDebianCommand_init_def Semaphore_def truthy_def good_os_def
      good_options_def good_command_def check_options_set_def option_is_set_def Let_def)

lemma check_options_set_absent:
  assumes "bintray_org opts = None \<or> bintray_jar_repository opts = None \<or>
           bintray_debian_repository opts = None \<or> bintray_publish_wait_secs opts = None"
  shows "check_options_set opts
           [''bintray_org'', ''bintray_jar_repository'',
            ''bintray_debian_repository'', ''bintray_publish_wait_secs''] =
         Inl (ConfigError ''Missing options'')"
  using assms by (auto simp add: check_options_set_def option_is_set_def)

lemma absent_cases:
  assumes "required_value_absent sys opts"
  shows "\<not> truthy (environ sys ''BINTRAY_KEY'') \<or> \<not> truthy (environ sys ''BINTRAY_USER'') \<or>
         check_options_set (opts\<lparr>github_disable_upstream_push := True\<rparr>)
           [''bintray_org'', ''bintray_jar_repository'',
            ''bintray_debian_repository'', ''bintray_publish_wait_secs''] =
         Inl (ConfigError ''Missing options'')"
proof (cases "environ sys ''BINTRAY_KEY'' = None \<or> environ sys ''BINTRAY_USER'' = None")
  case True
  then show ?thesis by (auto simp: truthy_def)
next
  case False
  with assms have "bintray_org opts = None \<or> bintray_jar_repository opts = None \<or>
      bintray_debian_repository opts = None \<or> bintray_publish_wait_secs opts = None"
    by (auto simp add: required_value_absent_def)
  then have "check_options_set (opts\<lparr>github_disable_upstream_push := True\<rparr>)
      [''bintray_org'', ''bintray_jar_repository'',
       ''bintray_debian_repository'', ''bintray_publish_wait_secs''] =
      Inl (ConfigError ''Missing options'')"
    by (intro check_options_set_absent) simp
  then show ?thesis by blast
qed

lemma init_raises_when_absent:
  assumes "required_value_absent sys opts"
  shows "raises (snd (BuildDebianCommand_init sys opts))"
  using absent_cases [OF assms]
  by (auto simp add: BuildDebianCommand_init_def Let_def Semaphore_def)

lemma init_config_error_past_semaphore:
  assumes "required_value_absent sys opts" and "Semaphore (max_local_builds opts) = Inr sem"
  shows "is_config_error (snd (BuildDebianCommand_init sys opts))"
  using absent_cases [OF assms(1)] assms(2)
  by (auto simp add: BuildDebianCommand_init_def Let_def)

lemma raises_no_value: "raises r \<Longrightarrow> r \<noteq> Inr v"
  by (cases r) simp_all

text \<open>
  C3. When one of the two credential variables or one of the four required options is
  absent, construction raises, whatever the other options are: it yields no command
  object, so no repository is processed. The exception is buildtool's configuration
  error in every case in which construction gets as far as the checks, that is,
  whenever the semaphore's own constructor has returned.
\<close>

theorem construction_fails_when_value_absent:
  assumes "required_value_absent sys opts"
  shows "raises (snd (BuildDebianCommand_init sys opts)) \<and>
         (\<forall>d. snd (BuildDebianCommand_init sys opts) \<noteq> Inr d) \<and>
         (\<forall>sem. Semaphore (max_local_builds opts) = Inr sem \<longrightarrow>
            is_config_error (snd (BuildDebianCommand_init sys opts)))"
proof -
  have fails: "raises (snd (BuildDebianCommand_init sys opts))"
    using assms by (rule init_raises_when_absent)
  then have no_command: "\<forall>d. snd (BuildDebianCommand_init sys opts) \<noteq> Inr d"
    by (simp add: raises_no_value)
  have config: "\<forall>sem. Semaphore (max_local_builds opts) = Inr sem \<longrightarrow>
      is_config_error (snd (BuildDebianCommand_init sys opts))"
    using assms by (simp add: init_config_error_past_semaphore)
  from fails no_command config show ?thesis by blast
qed

text \<open>An empty environment; a full environment with one option missing; and an empty
  environment together with a negative \<open>max_local_builds\<close>.\<close>

theorem construction_fails_when_value_absent_witness:
  "required_value_absent bare_os good_options \<and>
   is_config_error (snd (BuildDebianCommand_init bare_os good_options)) \<and>
   required_value_absent good_os (good_options\<lparr>bintray_org := None\<rparr>) \<and>
   is_config_error (snd (BuildDebianCommand_init good_os (good_options\<lparr>bintray_org := None\<rparr>))) \<and>
   required_value_absent bare_os (good_options\<lparr>max_local_builds := - 1\<rparr>) \<and>
   raises (snd (BuildDebianCommand_init bare_os (good_options\<lparr>max_local_builds := - 1\<rparr>)))"
proof -
  have a: "required_value_absent bare_os good_options"
    by (simp add: required_value_absent_def bare_os_def)
  have b: "required_value_absent good_os (good_options\<lparr>bintray_org := None\<rparr>)"
    by (simp add: required_value_absent_def)
  have c: "required_value_absent bare_os (good_options\<lparr>max_local_builds := - 1\<rparr>)"
    by (simp add: required_value_absent_def bare_os_def)
  have sem: "Semaphore (max_local_builds good_options) = Inr \<lparr>sem_value = 2, sem_calls = []\<rparr>"
    "Semaphore (max_local_builds (good_options\<lparr>bintray_org := None\<rparr>)) =
       Inr \<lparr>sem_value = 2, sem_calls = []\<rparr>"
    by (simp_all add: Semaphore_def good_options_def)
  from construction_fails_when_value_absent [OF a] sem(1)
  have "is_config_error (snd (BuildDebianCommand_init bare_os good_options))"
    by blast
  moreover from construction_fails_when_value_absent [OF b] sem(2)
  have "is_config_error
      (snd (BuildDebianCommand_init good_os (good_options\<lparr>bintray_org := None\<rparr>)))"
    by blast
  moreover from construction_fails_when_value_absent [OF c]
  have "raises (snd (BuildDebianCommand_init bare_os (good_options\<lparr>max_local_builds := - 1\<rparr>)))"
    by blast
  ultimately show ?thesis
    using a b c by blast
qed

subsection \<open>The options object\<close>

lemma do_repository_options:
  "do_repository sys gr self repo = Some (r, self') \<Longrightarrow> self_options self' = self_options self"
  by (auto simp add: do_repository_def Let_def split: option.splits)

text \<open>
  C9, as the code has it. Construction assigns \<open>True\<close> to the option
  \<open>github_disable_upstream_push\<close> of the caller's options object, whether it then
  raises or not, and assigns to no other option; the command holds that same object.
  \<open>_do_repository\<close> leaves the options as they are.
\<close>

theorem options_written_only_by_construction:
  "fst (BuildDebianCommand_init sys opts) = opts\<lparr>github_disable_upstream_push := True\<rparr> \<and>
   (\<forall>d. snd (BuildDebianCommand_init sys opts) = Inr d \<longrightarrow>
        self_options d = opts\<lparr>github_disable_upstream_push := True\<rparr>) \<and>
   (\<forall>r self'. do_repository sys gr self repo = Some (r, self') \<longrightarrow>
        self_options self' = self_options self)"
  using init_options init_self_options do_repository_options by blast

theorem options_written_only_by_construction_witness:
  "snd (BuildDebianCommand_init good_os good_options) = Inr good_command \<and>
   self_options good_command = good_options\<lparr>github_disable_upstream_push := True\<rparr> \<and>
   do_repository good_os failing_gradle good_command deck \<noteq> None \<and>
   self_options (snd (the (do_repository good_os failing_gradle good_command deck))) =
     self_options good_command"
proof -
  have built: "snd (BuildDebianCommand_init good_os good_options) = Inr good_command"
    by (simp add: good_init)
  have ran: "do_repository good_os failing_gradle good_command deck \<noteq> None"
    by (simp add: do_repository_def good_command_def acquire_def Let_def)
  then obtain r self' where
    run: "do_repository good_os failing_gradle good_command deck = Some (r, self')"
    by (cases "do_repository good_os failing_gradle good_command deck") auto
  note t = options_written_only_by_construction
    [of good_os good_options failing_gradle good_command deck]
  from t built have "self_options good_command = good_options\<lparr>github_disable_upstream_push := True\<rparr>"
    by blast
  moreover from t run have "self_options self' = self_options good_command"
    by blast
  ultimately show ?thesis
    using built ran run by simp
qed

text \<open>The caller's options before and after a successful construction differ.\<close>

theorem construction_writes_options_counterexample:
  "fst (BuildDebianCommand_init good_os good_options) \<noteq> good_options \<and>
   \<not> github_disable_upstream_push good_options \<and>
   github_disable_upstream_push (fst (BuildDebianCommand_init good_os good_options))"
  by (simp add: good_init) (simp add: good_options_def)

subsection \<open>The argument list\<close>

text \<open>
  C4. Provided the build tool's own common and packaging arguments do not contain it,
  the flag \<open>-x test\<close> is in the assembled argument list if and only if unit tests are
  disabled or the repository is \<open>deck\<close> and \<open>CHROME_BIN\<close> is not in the environment.
\<close>

theorem skip_tests_flag_iff:
  assumes "''-x test'' \<notin> set (get_common_args gr)"
    and "''-x test'' \<notin> set (get_debian_args gr ''trusty,xenial,bionic'')"
  shows "''-x test'' \<in> set (do_repository_args sys gr opts repo) \<longleftrightarrow>
         (\<not> run_unit_tests opts \<or> (name repo = ''deck'' \<and> environ sys ''CHROME_BIN'' = None))"
  using assms
  by (auto simp add: do_repository_args_def Let_def domIff split: option.splits)

text \<open>\<open>deck\<close> with unit tests disabled and no \<open>CHROME_BIN\<close> gets the flag; \<open>orca\<close>
  with unit tests enabled does not.\<close>

theorem skip_tests_flag_iff_witness:
  "''-x test'' \<notin> set (get_common_args failing_gradle) \<and>
   ''-x test'' \<notin> set (get_debian_args failing_gradle ''trusty,xenial,bionic'') \<and>
   ''-x test'' \<in> set (do_repository_args good_os failing_gradle
                        (good_options\<lparr>run_unit_tests := False\<rparr>) deck) \<and>
   ''-x test'' \<notin> set (do_repository_args good_os failing_gradle good_options orca)"
proof -
  have a: "''-x test'' \<notin> set (get_common_args failing_gradle)"
    by (simp add: failing_gradle_def)
  have b: "''-x test'' \<notin> set (get_debian_args failing_gradle ''trusty,xenial,bionic'')"
    by (simp add: failing_gradle_def)
  from a b
    skip_tests_flag_iff [OF a b, of good_os "good_options\<lparr>run_unit_tests := False\<rparr>" deck]
    skip_tests_flag_iff [OF a b, of good_os good_options orca]
  show ?thesis
    by (simp add: good_options_def orca_def)
qed

subsection \<open>One build and the gate\<close>

lemma acquire_blocks: "sem_value s = 0 \<Longrightarrow> acquire s = None"
  by (simp add: acquire_def)

text \<open>
  C2. A run of \<open>_do_repository\<close> on a semaphore without a free permit does not get past
  the \<open>with\<close> statement: \<open>check_run\<close> is not called. On a semaphore with a free permit
  the run returns, and
  \<^item> \<open>check_run\<close> is called on the command whose semaphore has been acquired exactly
    once more than before and not released since, so with one permit less;
  \<^item> the outcome of the run is the outcome of that call, exception or not;
  \<^item> the semaphore is afterwards what it was before, with one acquire followed by one
    release added to the calls it has served: its value is restored.
\<close>

theorem do_repository_pairs_gate:
  "(sem_value (self_semaphore self) = 0 \<longrightarrow> do_repository sys gr self repo = None) \<and>
   (0 < sem_value (self_semaphore self) \<longrightarrow>
      do_repository sys gr self repo =
        Some (check_run gr (do_repository_args sys gr (self_options self) repo)
                (self\<lparr>self_semaphore := (self_semaphore self)
                   \<lparr>sem_value := sem_value (self_semaphore self) - 1,
                    sem_calls := sem_calls (self_semaphore self) @ [Acquired]\<rparr>\<rparr>)
                repo ''candidate'' ''debian-build'',
              self\<lparr>self_semaphore := (self_semaphore self)
                   \<lparr>sem_calls := sem_calls (self_semaphore self) @ [Acquired, Released]\<rparr>\<rparr>))"
proof (intro conjI impI)
  assume "sem_value (self_semaphore self) = 0"
  then show "do_repository sys gr self repo = None"
    by (simp add: do_repository_def acquire_blocks)
next
  assume free: "0 < sem_value (self_semaphore self)"
  show "do_repository sys gr self repo =
        Some (check_run gr (do_repository_args sys gr (self_options self) repo)
                (self\<lparr>self_semaphore := (self_semaphore self)
                   \<lparr>sem_value := sem_value (self_semaphore self) - 1,
                    sem_calls := sem_calls (self_semaphore self) @ [Acquired]\<rparr>\<rparr>)
                repo ''candidate'' ''debian-build'',
              self\<lparr>self_semaphore := (self_semaphore self)
                   \<lparr>sem_calls := sem_calls (self_semaphore self) @ [Acquired, Released]\<rparr>\<rparr>)"
    using free by (simp add: do_repository_def Let_def acquire_def release_def)
qed

text \<open>
  The build tool that raises exactly when it sees the semaphore acquired once and not
  yet released: the run on the fresh command raises, and the semaphore is back at 2
  with one acquire and one release served. With no permit free the run blocks.
\<close>

theorem do_repository_pairs_gate_witness:
  "do_repository good_os watching_gradle good_command orca =
     Some (Inl (CollaboratorError ''gradle failed''),
           good_command\<lparr>self_semaphore := \<lparr>sem_value = 2, sem_calls = [Acquired, Released]\<rparr>\<rparr>) \<and>
   do_repository good_os watching_gradle
     (good_command\<lparr>self_semaphore := \<lparr>sem_value = 0, sem_calls = []\<rparr>\<rparr>) orca = None"
proof -
  have free: "0 < sem_value (self_semaphore good_command)"
    by (simp add: good_command_def)
  let ?blocked = "good_command\<lparr>self_semaphore := \<lparr>sem_value = 0, sem_calls = []\<rparr>\<rparr>"
  have none: "sem_value (self_semaphore ?blocked) = 0"
    by simp
  from do_repository_pairs_gate [of good_command good_os watching_gradle orca] free
  have ran: "do_repository good_os watching_gradle good_command orca =
        Some (check_run watching_gradle
                (do_repository_args good_os watching_gradle (self_options good_command) orca)
                (good_command\<lparr>self_semaphore := (self_semaphore good_command)
                   \<lparr>sem_value := sem_value (self_semaphore good_command) - 1,
                    sem_calls := sem_calls (self_semaphore good_command) @ [Acquired]\<rparr>\<rparr>)
                orca ''candidate'' ''debian-build'',
              good_command\<lparr>self_semaphore := (self_semaphore good_command)
                   \<lparr>sem_calls := sem_calls (self_semaphore good_command) @ [Acquired, Released]\<rparr>\<rparr>)"
    by blast
  from do_repository_pairs_gate [of ?blocked good_os watching_gradle orca] none
  have blocked: "do_repository good_os watching_gradle ?blocked orca = None"
    by blast
  have seen: "check_run watching_gradle args
      (good_command\<lparr>self_semaphore := (self_semaphore good_command)
         \<lparr>sem_value := sem_value (self_semaphore good_command) - 1,
          sem_calls := sem_calls (self_semaphore good_command) @ [Acquired]\<rparr>\<rparr>)
      orca ''candidate'' ''debian-build'' = Inl (CollaboratorError ''gradle failed'')" for args
    by (simp add: watching_gradle_def good_command_def)
  show ?thesis
    unfolding ran blocked seen by (simp add: good_command_def)
qed

subsection \<open>Parallel builds and the gate\<close>

lemma count_update:
  "i < length ws \<Longrightarrow>
   length (filter P (ws[i := x])) + (if P (ws ! i) then 1 else 0) =
   length (filter P ws) + (if P x then 1 else 0)"
proof (induction ws arbitrary: i)
  case Nil
  then show ?case by simp
next
  case (Cons w ws)
  show ?case
  proof (cases i)
    case 0
    then show ?thesis by simp
  next
    case (Suc j)
    with Cons.prems have "j < length ws" by simp
    from Cons.IH [OF this] Suc show ?thesis by simp
  qed
qed

lemma length_filter_mono:
  "(\<And>w. P w \<Longrightarrow> Q w) \<Longrightarrow> length (filter P ws) \<le> length (filter Q ws)"
  by (induction ws) auto

lemma executing_le_holding: "executing p \<le> holding p"
  unfolding executing_def holding_def
  by (rule length_filter_mono) simp

text \<open>A pool of one thread does what \<open>_do_repository\<close> does on its own.\<close>

lemma pool_of_one_thread:
  assumes "do_repository sys gr self repo = Some (r, self')"
  shows "pool_run gr [Enter 0, CheckRunEnds 0, Leave 0] (start_pool sys gr self [repo]) =
     Some \<lparr>p_self = self',
           p_workers = [\<lparr>w_repository = repo,
                         w_args = do_repository_args sys gr (self_options self) repo,
                         w_phase = Returned r\<rparr>]\<rparr>"
  using assms
  by (auto simp add: do_repository_def start_pool_def Let_def split: option.splits)

text \<open>The free permits of the shared semaphore.\<close>

lemma acquire_value: "acquire s = Some s' \<Longrightarrow> sem_value s = Suc (sem_value s')"
  by (auto simp: acquire_def split: if_splits)

lemma release_value: "sem_value (release s) = Suc (sem_value s)"
  by (simp add: release_def)

text \<open>Every step keeps the sum of the free permits and the permits held.\<close>

lemma pool_step_balance:
  assumes "pool_step gr a p = Some p'"
  shows "sem_value (self_semaphore (p_self p')) + holding p' =
         sem_value (self_semaphore (p_self p)) + holding p"
proof (cases a)
  case (Enter i)
  with assms obtain sem where i: "i < length (p_workers p)"
    and ph: "w_phase (p_workers p ! i) = AtWith"
    and sem: "acquire (self_semaphore (p_self p)) = Some sem"
    and p': "p' = p\<lparr>p_self := (p_self p)\<lparr>self_semaphore := sem\<rparr>,
        p_workers := (p_workers p)[i := (p_workers p ! i)\<lparr>w_phase := InCheckRun\<rparr>]\<rparr>"
    by (auto split: if_splits option.splits)
  from count_update [OF i, of "\<lambda>w. holds_permit (w_phase w)"
      "(p_workers p ! i)\<lparr>w_phase := InCheckRun\<rparr>"] ph
  show ?thesis by (simp add: p' acquire_value [OF sem] holding_def)
next
  case (CheckRunEnds i)
  let ?w = "p_workers p ! i"
  let ?r = "check_run gr (w_args ?w) (p_self p) (w_repository ?w) ''candidate'' ''debian-build''"
  from CheckRunEnds assms have i: "i < length (p_workers p)"
    and ph: "w_phase ?w = InCheckRun"
    and p': "p' = p\<lparr>p_workers := (p_workers p)[i := ?w\<lparr>w_phase := AtExit ?r\<rparr>]\<rparr>"
    by (auto simp: Let_def split: if_splits)
  from count_update [OF i, of "\<lambda>w. holds_permit (w_phase w)" "?w\<lparr>w_phase := AtExit ?r\<rparr>"] ph
  show ?thesis by (simp add: p' holding_def)
next
  case (Leave i)
  with assms obtain r where i: "i < length (p_workers p)"
    and ph: "w_phase (p_workers p ! i) = AtExit r"
    and p': "p' = p\<lparr>p_self := (p_self p)\<lparr>self_semaphore := release (self_semaphore (p_self p))\<rparr>,
        p_workers := (p_workers p)[i := (p_workers p ! i)\<lparr>w_phase := Returned r\<rparr>]\<rparr>"
    by (auto split: if_splits phase.splits)
  from count_update [OF i, of "\<lambda>w. holds_permit (w_phase w)"
      "(p_workers p ! i)\<lparr>w_phase := Returned r\<rparr>"] ph
  show ?thesis by (simp add: p' holding_def release_value)
qed

lemma pool_run_balance:
  "pool_run gr as p = Some p' \<Longrightarrow>
   sem_value (self_semaphore (p_self p')) + holding p' =
   sem_value (self_semaphore (p_self p)) + holding p"
proof (induction as arbitrary: p)
  case Nil
  then show ?case by simp
next
  case (Cons a as)
  then obtain q where q: "pool_step gr a p = Some q" and rest: "pool_run gr as q = Some p'"
    by (auto split: option.splits)
  from Cons.IH [OF rest] pool_step_balance [OF q] show ?case by simp
qed

lemma start_pool_holding: "holding (start_pool sys gr self repos) = 0"
  by (simp add: holding_def start_pool_def filter_map o_def)

lemma start_pool_self: "p_self (start_pool sys gr self repos) = self"
  by (simp add: start_pool_def)

text \<open>
  C1. A command has been constructed from the options, and any number of threads run
  \<open>_do_repository\<close> on it, interleaved in any way. In every state that such a run
  reaches, the number of threads inside \<open>check_run\<close> is at most \<open>max_local_builds\<close>.
\<close>

theorem executing_builds_bounded:
  assumes "snd (BuildDebianCommand_init sys opts) = Inr self"
    and "pool_run gr as (start_pool sys gr self repos) = Some p"
  shows "int (executing p) \<le> max_local_builds opts"
proof -
  have "sem_value (self_semaphore (p_self p)) + holding p = sem_value (self_semaphore self)"
    using pool_run_balance [OF assms(2)]
    by (simp add: start_pool_holding start_pool_self)
  then have "executing p \<le> sem_value (self_semaphore self)"
    using executing_le_holding [of p] by simp
  then show ?thesis
    using init_semaphore [OF assms(1)] by simp
qed

text \<open>
  Capacity 2 and five queued repositories: two threads enter, the first build fails and
  its thread leaves, a third thread enters; two builds are running. A third thread
  that tries to enter while two builds run is not let in.
\<close>

theorem executing_builds_bounded_witness:
  "snd (BuildDebianCommand_init good_os good_options) = Inr good_command \<and>
   pool_run failing_gradle [Enter 0, Enter 1, CheckRunEnds 0, Leave 0, Enter 2]
     (start_pool good_os failing_gradle good_command five_repos) \<noteq> None \<and>
   executing (the (pool_run failing_gradle [Enter 0, Enter 1, CheckRunEnds 0, Leave 0, Enter 2]
     (start_pool good_os failing_gradle good_command five_repos))) = 2 \<and>
   int (executing (the (pool_run failing_gradle
     [Enter 0, Enter 1, CheckRunEnds 0, Leave 0, Enter 2]
     (start_pool good_os failing_gradle good_command five_repos)))) \<le>
     max_local_builds good_options \<and>
   pool_run failing_gradle [Enter 0, Enter 1, Enter 2]
     (start_pool good_os failing_gradle good_command five_repos) = None"
proof -
  let ?run = "pool_run failing_gradle [Enter 0, Enter 1, CheckRunEnds 0, Leave 0, Enter 2]
     (start_pool good_os failing_gradle good_command five_repos)"
  have built: "snd (BuildDebianCommand_init good_os good_options) = Inr good_command"
    by (simp add: good_init)
  have phases: "map_option (\<lambda>p. (sem_value (self_semaphore (p_self p)),
        map w_phase (p_workers p))) ?run =
      Some (0, [Returned (Inl (CollaboratorError ''gradle failed'')), InCheckRun, InCheckRun,
                AtWith, AtWith])"
    by (simp add: start_pool_def good_command_def five_repos_def acquire_def release_def
        failing_gradle_def Let_def numeral_2_eq_2)
  then obtain p where p: "?run = Some p"
    and ws: "map w_phase (p_workers p) =
      [Returned (Inl (CollaboratorError ''gradle failed'')), InCheckRun, InCheckRun,
       AtWith, AtWith]"
    by (cases ?run) auto
  have "executing p = length (filter (\<lambda>ph. ph = InCheckRun) (map w_phase (p_workers p)))"
    by (simp add: executing_def filter_map o_def)
  then have two: "executing p = 2"
    by (simp add: ws)
  have blocked: "pool_run failing_gradle [Enter 0, Enter 1, Enter 2]
     (start_pool good_os failing_gradle good_command five_repos) = None"
    by (simp add: start_pool_def good_command_def five_repos_def acquire_def
        numeral_2_eq_2)
  from executing_builds_bounded [OF built p] built p two blocked show ?thesis
    by simp
qed

end
